theory Spec2Isabelle
  imports Complex_Main "HOL-Library.Mapping" "HOL-Library.AList_Mapping"
begin

section \<open>Python text primitives used by the survey-file parser\<close>

text \<open>
  Python strings are modelled as \<open>string\<close>: the UTF-8 bytes of the text, so an ASCII
  character is one \<open>char\<close> and the two reserved marker tokens of the naming engine,
  which are not ASCII, are written as their bytes. Substring search and equality on the
  bytes agree with those on the code points. Floats are modelled as \<open>real\<close> (finite
  values, no rounding), Python's unbounded integers as \<open>int\<close>.
\<close>

datatype py_error = ValueError | IndexError | KeyError

text \<open>
  \<open>str.isspace\<close> for one ASCII character: TAB..CR, FS..US and space. Whitespace
  outside ASCII is not modelled.
\<close>

definition is_space :: "char \<Rightarrow> bool" where
  "is_space c = (let n = (of_char c :: nat) in (9 \<le> n \<and> n \<le> 13) \<or> (28 \<le> n \<and> n \<le> 32))"

text \<open>\<open>s.strip()\<close>: leading and trailing whitespace removed.\<close>

definition strip :: "string \<Rightarrow> string" where
  "strip s = rev (dropWhile is_space (rev (dropWhile is_space s)))"

text \<open>\<open>s.split(',')\<close>: the fields between commas; the empty string has one empty field.\<close>

fun split_comma :: "string \<Rightarrow> string list" where
  "split_comma [] = [[]]"
| "split_comma (c # cs) =
     (if c = CHR '','' then [] # split_comma cs
      else (case split_comma cs of
              [] \<Rightarrow> [[c]]
            | f # fs \<Rightarrow> (c # f) # fs))"

text \<open>\<open>s.startswith(p)\<close>.\<close>

definition startswith :: "string \<Rightarrow> string \<Rightarrow> bool" where
  "startswith s p = (take (length p) s = p)"

text \<open>\<open>xs[i]\<close> with Python's negative indices; \<open>None\<close> is IndexError.\<close>

definition py_index :: "'a list \<Rightarrow> int \<Rightarrow> 'a option" where
  "py_index xs i =
     (let n = int (length xs); j = (if i < 0 then n + i else i)
      in if 0 \<le> j \<and> j < n then Some (xs ! nat j) else None)"

subsection \<open>Decimal literals\<close>

text \<open>
  The parser calls the built-ins \<open>float\<close> and \<open>int\<close>. The parser model takes them as
  parameters (\<open>None\<close> is ValueError), so every general theorem holds for any reading of
  numerals. The concrete readers below cover plain decimal literals
  (\<open>[+-]digits[.digits]\<close>) and are used where a concrete file is evaluated.
\<close>

definition is_digit :: "char \<Rightarrow> bool" where
  "is_digit c = (let n = (of_char c :: nat) in 48 \<le> n \<and> n \<le> 57)"

definition digit_val :: "char \<Rightarrow> nat" where
  "digit_val c = (of_char c :: nat) - 48"

definition digits_val :: "string \<Rightarrow> nat" where
  "digits_val ds = foldl (\<lambda>a c. 10 * a + digit_val c) 0 ds"

definition split_sign :: "string \<Rightarrow> bool \<times> string" where
  "split_sign s =
     (case s of
        [] \<Rightarrow> (False, [])
      | c # cs \<Rightarrow> if c = CHR ''-'' then (True, cs)
                 else if c = CHR ''+'' then (False, cs)
                 else (False, s))"

definition int_of_str :: "string \<Rightarrow> int option" where
  "int_of_str s =
     (let (neg, body) = split_sign (strip s)
      in if body \<noteq> [] \<and> list_all is_digit body
         then Some (if neg then - int (digits_val body) else int (digits_val body))
         else None)"

definition float_of_str :: "string \<Rightarrow> real option" where
  "float_of_str s =
     (let (neg, body) = split_sign (strip s);
          ip = takeWhile (\<lambda>c. c \<noteq> CHR ''.'') body;
          rest = dropWhile (\<lambda>c. c \<noteq> CHR ''.'') body;
          fp = (case rest of [] \<Rightarrow> [] | _ # r \<Rightarrow> r)
      in if list_all is_digit ip \<and> list_all is_digit fp \<and> (ip \<noteq> [] \<or> fp \<noteq> [])
         then (let v = real (digits_val ip) + real (digits_val fp) / 10 ^ length fp
               in Some (if neg then - v else v))
         else None)"

section \<open>Survey-network parser (\<open>load_sim_points\<close> of the current program)\<close>

record sim_point =
  tenban :: string
  tenmei :: string
  x_zahyo :: real
  y_zahyo :: real
  z_zahyo :: real

text \<open>
  A parcel entry of \<open>landparcel_data\<close>: name and coordinate list; the kind and the
  point count are present for linked (\<open>D00\<close>) parcels only.
\<close>

record landparcel =
  chiban :: string
  shubetsu :: "string option"
  zahyo :: "(real \<times> real) list"
  tensu :: "nat option"

record parse_state =
  sim_points :: "sim_point list"
  landparcel_data :: "landparcel list"

subsection \<open>Point records (\<open>A01\<close>)\<close>

datatype a01_outcome = A01_EmptyCoord | A01_Error | A01_Point sim_point

text \<open>
  The body of the \<open>A01\<close> branch for a line of at least five fields. An empty x or y
  field leaves through \<open>continue\<close>; a numeral that \<open>float\<close> rejects raises ValueError,
  which the branch catches.
\<close>

definition a01_record :: "(string \<Rightarrow> real option) \<Rightarrow> string list \<Rightarrow> a01_outcome" where
  "a01_record to_float parts =
     (let point_num = strip (parts ! 1);
          point_name = strip (parts ! 2);
          x_str = strip (parts ! 3);
          y_str = strip (parts ! 4)
      in if x_str = [] \<or> y_str = [] then A01_EmptyCoord
         else (case to_float x_str of
                 None \<Rightarrow> A01_Error
               | Some x \<Rightarrow>
                  (case to_float y_str of
                     None \<Rightarrow> A01_Error
                   | Some y \<Rightarrow>
                      (let z_str = (if length parts > 5 then strip (parts ! 5) else [])
                       in if z_str = []
                          then A01_Point \<lparr>tenban = point_num, tenmei = point_name,
                                 x_zahyo = x, y_zahyo = y, z_zahyo = 0\<rparr>
                          else (case to_float z_str of
                                  None \<Rightarrow> A01_Error
                                | Some z \<Rightarrow>
                                    A01_Point \<lparr>tenban = point_num, tenmei = point_name,
                                      x_zahyo = x, y_zahyo = y, z_zahyo = z\<rparr>)))))"

subsection \<open>Legacy parcel records (\<open>A02\<close>)\<close>

text \<open>
  The inner loop \<open>for j in range(point_count)\<close>: line \<open>i + 1 + j\<close>, when it exists, is
  split at commas; with at least two fields the first is read as y and the second as x,
  and \<open>(x, y)\<close> is appended. \<open>None\<close> is an exception (ValueError from \<open>float\<close>,
  IndexError from the line access), which abandons the record.
\<close>

fun a02_coordinates ::
  "(string \<Rightarrow> real option) \<Rightarrow> string list \<Rightarrow> int \<Rightarrow> nat list \<Rightarrow> (real \<times> real) list
     \<Rightarrow> (real \<times> real) list option" where
  "a02_coordinates to_float lines i [] coordinates = Some coordinates"
| "a02_coordinates to_float lines i (j # js) coordinates =
     (if i + 1 + int j < int (length lines) then
        (case py_index lines (i + 1 + int j) of
           None \<Rightarrow> None
         | Some raw \<Rightarrow>
            (let coord_parts = split_comma (strip raw)
             in if length coord_parts \<ge> 2 then
                  (case to_float (strip (coord_parts ! 0)) of
                     None \<Rightarrow> None
                   | Some y \<Rightarrow>
                      (case to_float (strip (coord_parts ! 1)) of
                         None \<Rightarrow> None
                       | Some x \<Rightarrow> a02_coordinates to_float lines i js (coordinates @ [(x, y)])))
                else a02_coordinates to_float lines i js coordinates))
      else a02_coordinates to_float lines i js coordinates)"

text \<open>
  The body of the \<open>A02\<close> branch for a line of at least four fields: the new parcel list
  and the amount added to \<open>i\<close> before the loop's own \<open>i += 1\<close>. After an exception
  nothing is stored and \<open>i\<close> is not advanced by \<open>point_count\<close>.
\<close>

definition a02_record ::
  "(string \<Rightarrow> real option) \<Rightarrow> (string \<Rightarrow> int option) \<Rightarrow> string list \<Rightarrow> int \<Rightarrow> string list
     \<Rightarrow> landparcel list \<Rightarrow> landparcel list \<times> int" where
  "a02_record to_float to_int lines i parts parcels =
     (let landparcel_name = strip (parts ! 2)
      in case to_int (strip (parts ! 3)) of
           None \<Rightarrow> (parcels, 0)
         | Some point_count \<Rightarrow>
            (case a02_coordinates to_float lines i [0 ..< nat point_count] [] of
               None \<Rightarrow> (parcels, 0)
             | Some coordinates \<Rightarrow>
                ((if coordinates \<noteq> []
                  then parcels @ [\<lparr>chiban = landparcel_name, shubetsu = None,
                                   zahyo = coordinates, tensu = None\<rparr>]
                  else parcels),
                 point_count)))"

subsection \<open>Linked parcel records (\<open>D00\<close>, \<open>parse_d00_landparcel\<close>)\<close>

text \<open>
  \<open>point_coord_map\<close>: every point is entered under its number and, when its name is
  not empty, under its name; a later entry overwrites an earlier one.
\<close>

definition point_coord_map :: "sim_point list \<Rightarrow> (string \<rightharpoonup> real \<times> real)" where
  "point_coord_map ps =
     foldl (\<lambda>m p.
              (let m1 = m(tenban p \<mapsto> (x_zahyo p, y_zahyo p))
               in if tenmei p \<noteq> [] then m1(tenmei p \<mapsto> (x_zahyo p, y_zahyo p)) else m1))
           Map.empty ps"

text \<open>The lookup of one \<open>B01\<close> reference: by number first, then by a non-empty name.\<close>

definition b01_coord :: "(string \<rightharpoonup> real \<times> real) \<Rightarrow> string list \<Rightarrow> (real \<times> real) option" where
  "b01_coord m b01_parts =
     (let point_num = strip (b01_parts ! 1);
          point_name = (if length b01_parts > 2 then strip (b01_parts ! 2) else [])
      in case m point_num of
           Some c \<Rightarrow> Some c
         | None \<Rightarrow> if point_name \<noteq> [] then m point_name else None)"

text \<open>
  The inner \<open>while\<close> loop of \<open>parse_d00_landparcel\<close>: it stops at \<open>D99\<close>, at the next
  \<open>D00\<close> or at the end of the file and returns the coordinates with the index reached.
  \<open>None\<close> is the IndexError of the line access.
\<close>

function d00_collect ::
  "(string \<rightharpoonup> real \<times> real) \<Rightarrow> string list \<Rightarrow> int \<Rightarrow> (real \<times> real) list
     \<Rightarrow> ((real \<times> real) list \<times> int) option" where
  "d00_collect m lines i coordinates =
     (if i < int (length lines) then
        (case py_index lines i of
           None \<Rightarrow> None
         | Some raw \<Rightarrow>
            (let b01_line = strip raw
             in if b01_line = [] then d00_collect m lines (i + 1) coordinates
                else if startswith b01_line ''D99'' then Some (coordinates, i)
                else if startswith b01_line ''D00'' then Some (coordinates, i)
                else if startswith b01_line ''B01'' then
                  (let b01_parts = split_comma b01_line
                   in if length b01_parts \<ge> 2 then
                        (case b01_coord m b01_parts of
                           Some c \<Rightarrow> d00_collect m lines (i + 1) (coordinates @ [c])
                         | None \<Rightarrow> d00_collect m lines (i + 1) coordinates)
                      else d00_collect m lines (i + 1) coordinates)
                else d00_collect m lines (i + 1) coordinates))
      else Some (coordinates, i))"
  by pat_completeness auto
termination
  by (relation "measure (\<lambda>(m, lines, i, coordinates). nat (int (length lines) - i))") auto

text \<open>\<open>parse_d00_landparcel\<close>: the parcel, if any, and the number of lines processed.\<close>

definition parse_d00_landparcel ::
  "sim_point list \<Rightarrow> string list \<Rightarrow> int \<Rightarrow> (landparcel option \<times> int) option" where
  "parse_d00_landparcel points lines start_index =
     (case py_index lines start_index of
        None \<Rightarrow> None
      | Some raw \<Rightarrow>
         (let line = strip raw; parts = split_comma line
          in if length parts < 4 then Some (None, 0)
             else
               (let landparcel_type = strip (parts ! 1);
                    landparcel_name = strip (parts ! 2)
                in case d00_collect (point_coord_map points) lines (start_index + 1) [] of
                     None \<Rightarrow> Some (None, 0)
                   | Some (coordinates, i) \<Rightarrow>
                      (let lines_processed = i - start_index
                       in if length coordinates \<ge> 3
                          then Some (Some \<lparr>chiban = landparcel_name,
                                            shubetsu = Some landparcel_type,
                                            zahyo = coordinates,
                                            tensu = Some (length coordinates)\<rparr>,
                                     lines_processed)
                          else Some (None, lines_processed)))))"

subsection \<open>The main loop\<close>

text \<open>
  One iteration of the \<open>while i < len(lines)\<close> loop of \<open>load_sim_points\<close>, for
  \<open>i < len(lines)\<close>: the index and the lists the next iteration starts from, or the
  exception that leaves the loop (only the line access \<open>lines[i]\<close> can raise outside a
  handler). The local flag \<open>has_negative\<close> is written but never read and is left out.
\<close>

definition load_step ::
  "(string \<Rightarrow> real option) \<Rightarrow> (string \<Rightarrow> int option) \<Rightarrow> string list \<Rightarrow> int \<Rightarrow> parse_state
     \<Rightarrow> py_error + int \<times> parse_state" where
  "load_step to_float to_int lines i st =
     (case py_index lines i of
        None \<Rightarrow> Inl IndexError
      | Some raw \<Rightarrow>
         (let line = strip raw
          in if startswith line ''A01'' then
               (let parts = split_comma line
                in if length parts \<ge> 5 then
                     (case a01_record to_float parts of
                        A01_EmptyCoord \<Rightarrow> Inr (i, st)
                      | A01_Error \<Rightarrow> Inr (i + 1, st)
                      | A01_Point p \<Rightarrow> Inr (i + 1, st\<lparr>sim_points := sim_points st @ [p]\<rparr>))
                   else Inr (i + 1, st))
             else if startswith line ''A02'' then
               (let parts = split_comma line
                in if length parts \<ge> 4 then
                     (case a02_record to_float to_int lines i parts (landparcel_data st) of
                        (parcels, skip) \<Rightarrow> Inr (i + skip + 1, st\<lparr>landparcel_data := parcels\<rparr>))
                   else Inr (i + 1, st))
             else if startswith line ''D00'' then
               (case parse_d00_landparcel (sim_points st) lines i of
                  Some (Some landparcel_info, lines_processed) \<Rightarrow>
                    Inr (i + lines_processed,
                         st\<lparr>landparcel_data := landparcel_data st @ [landparcel_info]\<rparr>)
                | _ \<Rightarrow> Inr (i + 1, st))
             else Inr (i + 1, st)))"

text \<open>
  The loop itself. It need not terminate, so it is a partial function: \<open>None\<close> means
  that the loop never returns, \<open>Some (Inl e)\<close> that an exception leaves it,
  \<open>Some (Inr st)\<close> that it ends with the lists \<open>st\<close>.
\<close>

partial_function (option) load_loop ::
  "(string \<Rightarrow> real option) \<Rightarrow> (string \<Rightarrow> int option) \<Rightarrow> string list \<Rightarrow> int \<Rightarrow> parse_state
     \<Rightarrow> (py_error + parse_state) option" where
  "load_loop to_float to_int lines i st =
     (if i < int (length lines) then
        (case load_step to_float to_int lines i st of
           Inl e \<Rightarrow> Some (Inl e)
         | Inr (i', st') \<Rightarrow> load_loop to_float to_int lines i' st')
      else Some (Inr st))"

text \<open>\<open>load_sim_points\<close> on the lines of the file: both lists start empty, \<open>i = 0\<close>.\<close>

definition load_sim_points ::
  "(string \<Rightarrow> real option) \<Rightarrow> (string \<Rightarrow> int option) \<Rightarrow> string list
     \<Rightarrow> (py_error + parse_state) option" where
  "load_sim_points to_float to_int lines =
     load_loop to_float to_int lines 0 \<lparr>sim_points = [], landparcel_data = []\<rparr>"

section \<open>Coordinate-frame classification\<close>

text \<open>
  Python's \<open>min\<close> and \<open>max\<close> of a list: one pass that keeps the first extreme value;
  \<open>None\<close> is the ValueError of an empty list.
\<close>

definition py_min :: "real list \<Rightarrow> real option" where
  "py_min xs = (case xs of [] \<Rightarrow> None
                | x # r \<Rightarrow> Some (foldl (\<lambda>m v. if v < m then v else m) x r))"

definition py_max :: "real list \<Rightarrow> real option" where
  "py_max xs = (case xs of [] \<Rightarrow> None
                | x # r \<Rightarrow> Some (foldl (\<lambda>m v. if v > m then v else m) x r))"

text \<open>
  \<open>detect_coordinate_system_type\<close>: \<open>True\<close> is "arbitrary (local) frame", \<open>False\<close> is
  "plane-rectangular frame". An empty point list returns \<open>False\<close> at the first guard.
\<close>

definition detect_coordinate_system_type :: "sim_point list \<Rightarrow> py_error + bool" where
  "detect_coordinate_system_type points =
     (if points = [] then Inr False
      else
        (let x_coords = map x_zahyo points; y_coords = map y_zahyo points
         in case (py_min x_coords, py_max x_coords, py_min y_coords, py_max y_coords) of
              (Some x_min, Some x_max, Some y_min, Some y_max) \<Rightarrow>
                if \<bar>x_max\<bar> < 5000 \<and> \<bar>x_min\<bar> < 5000 \<and> \<bar>y_max\<bar> < 5000 \<and> \<bar>y_min\<bar> < 5000
                then Inr True
                else if \<bar>x_min\<bar> < 300000 \<and> \<bar>x_max\<bar> < 300000 \<and>
                        \<bar>y_min\<bar> < 300000 \<and> \<bar>y_max\<bar> < 300000
                then Inr False
                else Inr True
            | _ \<Rightarrow> Inl ValueError))"

text \<open>The table \<open>system_ranges\<close>: zone number, x range, y range, in the order written.\<close>

definition system_ranges :: "(nat \<times> (real \<times> real) \<times> (real \<times> real)) list" where
  "system_ranges =
     [(1, (-150000, 150000), (-150000, 100000)),
      (2, (-250000, 50000), (-150000, 100000)),
      (3, (-150000, 150000), (-150000, 150000)),
      (4, (-150000, 150000), (-150000, 150000)),
      (5, (-150000, 150000), (-150000, 150000)),
      (6, (-150000, 150000), (-150000, 150000)),
      (7, (-150000, 150000), (-150000, 150000)),
      (8, (-150000, 150000), (-150000, 150000)),
      (9, (-150000, 200000), (-150000, 150000)),
      (10, (-150000, 150000), (-150000, 150000)),
      (11, (-150000, 150000), (-150000, 150000)),
      (12, (-150000, 150000), (-150000, 150000)),
      (13, (-150000, 150000), (-150000, 150000)),
      (14, (-200000, 200000), (-200000, 200000)),
      (15, (-150000, 150000), (-150000, 150000)),
      (16, (-150000, 150000), (-150000, 150000)),
      (17, (-150000, 150000), (-150000, 150000)),
      (18, (-200000, 200000), (-200000, 200000)),
      (19, (-150000, 150000), (-150000, 150000))]"

text \<open>
  \<open>detect_coordinate_system_number\<close>: the first zone whose box holds the mean of the
  coordinates; \<open>None\<close> for an empty list and when no box holds it.
\<close>

definition detect_coordinate_system_number :: "sim_point list \<Rightarrow> nat option" where
  "detect_coordinate_system_number points =
     (if points = [] then None
      else
        (let x_coords = map x_zahyo points; y_coords = map y_zahyo points;
             avg_x = sum_list x_coords / real (length x_coords);
             avg_y = sum_list y_coords / real (length y_coords);
             candidates =
               filter (\<lambda>(system_num, (x_lo, x_hi), (y_lo, y_hi)).
                         x_lo \<le> avg_x \<and> avg_x \<le> x_hi \<and> y_lo \<le> avg_y \<and> avg_y \<le> y_hi)
                      system_ranges
         in case candidates of
              [] \<Rightarrow> None
            | (detected_system, _) # _ \<Rightarrow> Some detected_system))"

text \<open>
  The classification as the specification words it, over the extrema of the point set:
  the reference definition the code is compared with.
\<close>

datatype frame = LOCAL | NATIONAL_PLANE | NEEDS_MANUAL

definition spec_classification :: "sim_point list \<Rightarrow> frame" where
  "spec_classification points =
     (if points = [] then NEEDS_MANUAL
      else
        (let xmin = Min (set (map x_zahyo points)); xmax = Max (set (map x_zahyo points));
             ymin = Min (set (map y_zahyo points)); ymax = Max (set (map y_zahyo points))
         in if \<bar>xmin\<bar> < 5000 \<and> \<bar>xmax\<bar> < 5000 \<and> \<bar>ymin\<bar> < 5000 \<and> \<bar>ymax\<bar> < 5000 then LOCAL
            else if \<bar>xmin\<bar> < 300000 \<and> \<bar>xmax\<bar> < 300000 \<and> \<bar>ymin\<bar> < 300000 \<and> \<bar>ymax\<bar> < 300000
            then NATIONAL_PLANE
            else LOCAL))"

text \<open>How the caller reads the code's result: \<open>is_arbitrary\<close> or plane-rectangular.\<close>

definition frame_of_result :: "bool \<Rightarrow> frame" where
  "frame_of_result is_arbitrary = (if is_arbitrary then LOCAL else NATIONAL_PLANE)"

section \<open>Encoding candidates (\<open>load_sim_points\<close> of the earlier program)\<close>

record df_point =
  df_tenban :: string
  df_tenmei :: string
  df_x :: real
  df_y :: real






section \<open>Naming engine and matching (current program)\<close>

subsection \<open>Photo table and coordinates\<close>

text \<open>The three values the landscape column takes: distant, close, unknown.\<close>

datatype landscape = Enkei | Kinkei | Fumei

text \<open>
  A row of \<open>photos_tree\<close>, columns 0 to 7. The coordinate and distance columns hold
  display strings of numbers; they are represented by the numbers, \<open>None\<close> for the empty
  string. Tk's conversion of number-like cell values is not modelled.
\<close>

record row =
  original :: string
  new_name :: string
  datetime :: string
  landscape :: landscape
  x_col :: "real option"
  y_col :: "real option"
  matching :: string
  distance_col :: "real option"

text \<open>
  An entry of \<open>photo_gps_data\<close>; \<open>None\<close> is an absent key. The dictionary itself is
  a \<open>mapping\<close> from source file names to entries.
\<close>

record gps_data =
  exif_datetime :: "string option"
  lat :: "real option"
  lon :: "real option"
  x_coord :: "real option"
  y_coord :: "real option"
  original_x_coord :: "real option"
  original_y_coord :: "real option"

record app_state =
  photos_tree :: "row list"
  photo_gps_data :: "(string, gps_data) mapping"

record config =
  use_point_name :: bool
  use_landscape_suffix :: bool
  force_point_name_for_special :: bool
  use_arbitrary_coordinates :: bool
  use_gps_conversion :: bool

subsection \<open>File names\<close>

text \<open>
  The extension part of \<open>os.path.splitext\<close>: from the last dot of the last path
  component, provided some character before that dot in the component is not a dot.
\<close>

definition splitext_ext :: "string \<Rightarrow> string" where
  "splitext_ext p =
     (let b = rev (takeWhile (\<lambda>c. c \<noteq> CHR ''/'') (rev p));
          tail = takeWhile (\<lambda>c. c \<noteq> CHR ''.'') (rev b);
          head = drop (length tail + 1) (rev b)
      in if length tail < length b \<and> list_ex (\<lambda>c. c \<noteq> CHR ''.'') head
         then CHR ''.'' # rev tail else [])"

text \<open>\<open>sub in s\<close>.\<close>

fun contains :: "string \<Rightarrow> string \<Rightarrow> bool" where
  "contains [] sub = (sub = [])"
| "contains (c # cs) sub = (startswith (c # cs) sub \<or> contains cs sub)"

text \<open>The two marker tokens (control point, reference point), as UTF-8 bytes.\<close>

definition kijunten :: string where
  "kijunten = [CHR 0xE5, CHR 0x9F, CHR 0xBA, CHR 0xE6, CHR 0xBA, CHR 0x96,
               CHR 0xE7, CHR 0x82, CHR 0xB9]"

definition inshoten :: string where
  "inshoten = [CHR 0xE5, CHR 0xBC, CHR 0x95, CHR 0xE7, CHR 0x85, CHR 0xA7,
               CHR 0xE7, CHR 0x82, CHR 0xB9]"

definition is_special_name :: "string \<Rightarrow> bool" where
  "is_special_name point_name = (contains point_name kijunten \<or> contains point_name inshoten)"

subsection \<open>\<open>create_filename\<close>\<close>

text \<open>The identifier after the special-point override at the head of the function.\<close>

definition effective_identifier :: "config \<Rightarrow> string \<Rightarrow> sim_point option \<Rightarrow> string" where
  "effective_identifier cfg identifier point_data =
     (case point_data of
        None \<Rightarrow> identifier
      | Some p \<Rightarrow>
         if force_point_name_for_special cfg
         then (let point_name = strip (tenmei p)
               in if is_special_name point_name then point_name else identifier)
         else identifier)"

text \<open>An unknown landscape is treated as close.\<close>

definition effective_landscape :: "landscape \<Rightarrow> landscape" where
  "effective_landscape landscape_type = (if landscape_type = Fumei then Kinkei else landscape_type)"

definition suffix_of :: "landscape \<Rightarrow> string" where
  "suffix_of landscape_type = (if landscape_type = Enkei then ''-1'' else ''-2'')"

definition base_filename :: "config \<Rightarrow> string \<Rightarrow> string \<Rightarrow> landscape \<Rightarrow> string" where
  "base_filename cfg identifier original_filename landscape_type =
     (if use_landscape_suffix cfg
      then identifier @ suffix_of (effective_landscape landscape_type) @ splitext_ext original_filename
      else identifier @ splitext_ext original_filename)"

text \<open>
  Membership of a row in \<open>existing_photos\<close>: same matched identifier, same landscape
  (in suffix mode only), another source file.
\<close>

definition is_existing :: "config \<Rightarrow> string \<Rightarrow> string \<Rightarrow> landscape \<Rightarrow> row \<Rightarrow> bool" where
  "is_existing cfg identifier original_filename landscape_type r =
     (if use_landscape_suffix cfg
      then matching r = identifier \<and> landscape r = effective_landscape landscape_type \<and>
           original r \<noteq> original_filename
      else matching r = identifier \<and> original r \<noteq> original_filename)"

text \<open>An existing photo is displaced when its new file name is the base file name.\<close>

definition collides :: "config \<Rightarrow> string \<Rightarrow> string \<Rightarrow> landscape \<Rightarrow> row \<Rightarrow> bool" where
  "collides cfg identifier original_filename landscape_type r =
     (is_existing cfg identifier original_filename landscape_type r \<and>
      new_name r = base_filename cfg identifier original_filename landscape_type)"

text \<open>
  What is done to a displaced photo: its stored position is set back to the original
  one when both original coordinates are present, and its new file name, matched point
  and distance cells are emptied.
\<close>

definition restore_entry :: "gps_data \<Rightarrow> gps_data" where
  "restore_entry g =
     (case (original_x_coord g, original_y_coord g) of
        (Some original_x, Some original_y) \<Rightarrow>
          g\<lparr>x_coord := Some original_x, y_coord := Some original_y\<rparr>
      | _ \<Rightarrow> g)"

definition restore_coords ::
  "(string, gps_data) mapping \<Rightarrow> string \<Rightarrow> (string, gps_data) mapping" where
  "restore_coords gps original_photo_name =
     (case Mapping.lookup gps original_photo_name of
        None \<Rightarrow> gps
      | Some g \<Rightarrow> Mapping.update original_photo_name (restore_entry g) gps)"

definition clear_row :: "row \<Rightarrow> row" where
  "clear_row r = r\<lparr>new_name := [], matching := [], distance_col := None\<rparr>"

text \<open>
  \<open>create_filename\<close>: the returned file name and the state it leaves. The set
  \<open>used_numbers\<close> that the source collects from the existing names is never read and is
  left out; no name of the form \<open>identifier_n.ext\<close> is ever built.
\<close>

definition create_filename ::
  "config \<Rightarrow> string \<Rightarrow> string \<Rightarrow> landscape \<Rightarrow> sim_point option \<Rightarrow> app_state
     \<Rightarrow> string \<times> app_state" where
  "create_filename cfg identifier0 original_filename landscape_type point_data st =
     (let identifier = effective_identifier cfg identifier0 point_data;
          hit = collides cfg identifier original_filename landscape_type
      in (base_filename cfg identifier original_filename landscape_type,
          st\<lparr>photos_tree := map (\<lambda>r. if hit r then clear_row r else r) (photos_tree st),
             photo_gps_data :=
               foldl restore_coords (photo_gps_data st)
                 (map original (filter hit (photos_tree st)))\<rparr>))"

subsection \<open>Callers of \<open>create_filename\<close>\<close>

text \<open>The first row whose source file name is \<open>name\<close> is rewritten, as the loops with \<open>break\<close> do.\<close>

fun update_row :: "string \<Rightarrow> (row \<Rightarrow> row) \<Rightarrow> row list \<Rightarrow> row list" where
  "update_row name f [] = []"
| "update_row name f (r # rs) = (if original r = name then f r # rs else r # update_row name f rs)"

text \<open>\<open>photo_gps_data[name]\<close> moved onto the matched point.\<close>

definition snap_to_point :: "gps_data \<Rightarrow> sim_point \<Rightarrow> gps_data" where
  "snap_to_point g matched_point =
     g\<lparr>x_coord := Some (x_zahyo matched_point), y_coord := Some (y_zahyo matched_point)\<rparr>"

text \<open>
  The identifier chosen by the landscape dialog: the point name for a point whose name
  holds a marker token, otherwise the name or the number as configured.
\<close>

definition dialog_identifier :: "config \<Rightarrow> sim_point \<Rightarrow> string" where
  "dialog_identifier cfg matched_point =
     (let is_special = is_special_name (strip (tenmei matched_point))
      in if is_special then tenmei matched_point
         else if use_point_name cfg then tenmei matched_point
         else tenban matched_point)"

text \<open>The cells the dialog writes into the row of the dropped photo.\<close>

definition dialog_row ::
  "string \<Rightarrow> landscape \<Rightarrow> string \<Rightarrow> real \<Rightarrow> row \<Rightarrow> row" where
  "dialog_row new_filename photo_landscape identifier matched_point_distance r =
     r\<lparr>new_name := new_filename, landscape := photo_landscape, matching := identifier,
       distance_col := Some matched_point_distance\<rparr>"

text \<open>\<open>photo_gps_data[photo_name]\<close>, when present, moved onto the matched point.\<close>

definition snap_photo ::
  "string \<Rightarrow> sim_point \<Rightarrow> (string, gps_data) mapping \<Rightarrow> (string, gps_data) mapping" where
  "snap_photo photo_name matched_point gps =
     (case Mapping.lookup gps photo_name of
        None \<Rightarrow> gps
      | Some g \<Rightarrow> Mapping.update photo_name (snap_to_point g matched_point) gps)"

text \<open>
  \<open>confirm_landscape\<close>, the action of the landscape dialog after a photo is dropped on
  a point: the interactive assignment.
\<close>

definition confirm_landscape ::
  "config \<Rightarrow> string \<Rightarrow> sim_point \<Rightarrow> real \<Rightarrow> landscape \<Rightarrow> app_state \<Rightarrow> app_state" where
  "confirm_landscape cfg photo_name matched_point matched_point_distance photo_landscape st =
     (let identifier = dialog_identifier cfg matched_point;
          (new_filename, st1) =
             create_filename cfg identifier photo_name photo_landscape (Some matched_point) st
      in st1\<lparr>photos_tree :=
               update_row photo_name
                 (dialog_row new_filename photo_landscape identifier matched_point_distance)
                 (photos_tree st1),
             photo_gps_data := snap_photo photo_name matched_point (photo_gps_data st1)\<rparr>)"

subsection \<open>\<open>auto_match_by_gps\<close>\<close>

text \<open>
  The nearest-point scan: \<open>None\<close> stands for \<open>matched_point = None\<close>,
  \<open>min_distance = inf\<close>; a point replaces the current one only when strictly nearer.
\<close>

definition nearer :: "real \<Rightarrow> real \<Rightarrow> (sim_point \<times> real) option \<Rightarrow> sim_point
     \<Rightarrow> (sim_point \<times> real) option" where
  "nearer px py best point =
     (let dist = sqrt ((x_zahyo point - px)\<^sup>2 + (y_zahyo point - py)\<^sup>2)
      in case best of
           None \<Rightarrow> Some (point, dist)
         | Some (matched_point, min_distance) \<Rightarrow>
             if dist < min_distance then Some (point, dist) else best)"

definition nearest_point :: "real \<Rightarrow> real \<Rightarrow> sim_point list \<Rightarrow> (sim_point \<times> real) option" where
  "nearest_point px py points = foldl (nearer px py) None points"

text \<open>The distance the scan computes for one point.\<close>

definition point_distance :: "real \<Rightarrow> real \<Rightarrow> sim_point \<Rightarrow> real" where
  "point_distance px py point = sqrt ((x_zahyo point - px)\<^sup>2 + (y_zahyo point - py)\<^sup>2)"

record counters =
  matched_count :: nat
  skipped_count :: nat
  no_gps_count :: nat

text \<open>The identifier the automatic pass uses: the point name or number as configured.\<close>

definition auto_identifier :: "config \<Rightarrow> sim_point \<Rightarrow> string" where
  "auto_identifier cfg matched_point =
     (if use_point_name cfg then tenmei matched_point else tenban matched_point)"

text \<open>The cells the automatic pass writes into the row of a matched photo.\<close>

definition auto_row :: "string \<Rightarrow> sim_point \<Rightarrow> string \<Rightarrow> real \<Rightarrow> row \<Rightarrow> row" where
  "auto_row new_filename matched_point identifier min_distance values =
     values\<lparr>new_name := new_filename, landscape := Kinkei,
            x_col := Some (x_zahyo matched_point), y_col := Some (y_zahyo matched_point),
            matching := identifier, distance_col := Some min_distance\<rparr>"

text \<open>One iteration of the loop over the rows, for the row at position \<open>k\<close>.\<close>

definition auto_match_row ::
  "config \<Rightarrow> sim_point list \<Rightarrow> real \<Rightarrow> app_state \<times> counters \<Rightarrow> nat \<Rightarrow> app_state \<times> counters" where
  "auto_match_row cfg points distance sc k =
     (let st = fst sc; cnt = snd sc; values = photos_tree st ! k; photo_name = original values
      in if matching values \<noteq> [] then (st, cnt\<lparr>skipped_count := skipped_count cnt + 1\<rparr>)
         else
           (case Mapping.lookup (photo_gps_data st) photo_name of
              None \<Rightarrow> (st, cnt\<lparr>no_gps_count := no_gps_count cnt + 1\<rparr>)
            | Some data \<Rightarrow>
               (case (x_coord data, y_coord data) of
                  (Some px, Some py) \<Rightarrow>
                    (case nearest_point px py points of
                       None \<Rightarrow> (st, cnt)
                     | Some (matched_point, min_distance) \<Rightarrow>
                        if min_distance \<le> distance then
                          (let identifier = auto_identifier cfg matched_point;
                               (new_filename, st1) =
                                  create_filename cfg identifier photo_name Kinkei
                                    (Some matched_point) st;
                               values' = auto_row new_filename matched_point identifier
                                           min_distance values
                           in (st1\<lparr>photos_tree := (photos_tree st1)[k := values'],
                                   photo_gps_data :=
                                     snap_photo photo_name matched_point (photo_gps_data st1)\<rparr>,
                               cnt\<lparr>matched_count := matched_count cnt + 1\<rparr>))
                        else (st, cnt))
                | _ \<Rightarrow> (st, cnt\<lparr>no_gps_count := no_gps_count cnt + 1\<rparr>))))"

text \<open>
  \<open>auto_match_by_gps\<close>: the guards, then the loop over the rows in table order.
  \<open>distance\<close> is the answer of the tolerance dialog, \<open>None\<close> when it was cancelled.
\<close>

definition auto_match_by_gps ::
  "config \<Rightarrow> sim_point list \<Rightarrow> real option \<Rightarrow> app_state \<Rightarrow> app_state \<times> counters" where
  "auto_match_by_gps cfg points distance st =
     (let zero = \<lparr>matched_count = 0, skipped_count = 0, no_gps_count = 0\<rparr>
      in if points = [] \<or> Mapping.is_empty (photo_gps_data st) then (st, zero)
         else if use_arbitrary_coordinates cfg then (st, zero)
         else if \<not> use_gps_conversion cfg then (st, zero)
         else (case distance of
                 None \<Rightarrow> (st, zero)
               | Some d \<Rightarrow>
                  if d = 0 then (st, zero)
                  else foldl (auto_match_row cfg points d) (st, zero)
                         [0 ..< length (photos_tree st)]))"


subsection \<open>Sequences of assignments and the collision invariant\<close>

text \<open>
  An assignment is made by dropping a photo on a point and answering the landscape
  dialog, or by a pass of the automatic matching.
\<close>

datatype operation =
    Drop string sim_point real landscape
  | AutoMatch "sim_point list" "real option"

fun run_operation :: "config \<Rightarrow> app_state \<Rightarrow> operation \<Rightarrow> app_state" where
  "run_operation cfg st (Drop photo_name matched_point matched_point_distance photo_landscape) =
     confirm_landscape cfg photo_name matched_point matched_point_distance photo_landscape st"
| "run_operation cfg st (AutoMatch points distance) =
     fst (auto_match_by_gps cfg points distance st)"

definition run_operations :: "config \<Rightarrow> app_state \<Rightarrow> operation list \<Rightarrow> app_state" where
  "run_operations cfg st ops = foldl (run_operation cfg) st ops"

text \<open>
  The special-point override inside \<open>create_filename\<close> leaves the identifier its caller
  passes (and then writes into the matched-point cell) as it is.
\<close>

definition override_free :: "config \<Rightarrow> string \<Rightarrow> sim_point \<Rightarrow> bool" where
  "override_free cfg identifier matched_point =
     (effective_identifier cfg identifier (Some matched_point) = identifier)"








section \<open>Matching in the earlier program (\<open>match_photos_to_points_xy\<close>)\<close>

definition calculate_xy_distance :: "real \<Rightarrow> real \<Rightarrow> real \<Rightarrow> real \<Rightarrow> real" where
  "calculate_xy_distance x1 y1 x2 y2 = sqrt ((x2 - x1)\<^sup>2 + (y2 - y1)\<^sup>2)"


text \<open>
  The scan over the point table: \<open>None\<close> stands for \<open>closest_point = None\<close>,
  \<open>min_distance = inf\<close>.
\<close>

definition closer :: "real \<Rightarrow> real \<Rightarrow> (df_point \<times> real) option \<Rightarrow> df_point
     \<Rightarrow> (df_point \<times> real) option" where
  "closer photo_x photo_y best point =
     (let distance = calculate_xy_distance photo_x photo_y (df_x point) (df_y point)
      in case best of
           None \<Rightarrow> Some (point, distance)
         | Some (closest_point, min_distance) \<Rightarrow>
             if distance < min_distance then Some (point, distance) else best)"

definition closest_point :: "real \<Rightarrow> real \<Rightarrow> df_point list \<Rightarrow> (df_point \<times> real) option" where
  "closest_point photo_x photo_y points = foldl (closer photo_x photo_y) None points"





section \<open>Sample data for the concrete evaluations\<close>

definition sample_point :: "string \<Rightarrow> real \<Rightarrow> real \<Rightarrow> sim_point" where
  "sample_point name x y =
     \<lparr>tenban = name, tenmei = name, x_zahyo = x, y_zahyo = y, z_zahyo = 0\<rparr>"

definition sample_config :: config where
  "sample_config =
     \<lparr>use_point_name = False, use_landscape_suffix = True,
      force_point_name_for_special = True, use_arbitrary_coordinates = False,
      use_gps_conversion = True\<rparr>"

text \<open>A row as \<open>load_photos\<close> inserts it, and the coordinates it records for a photo.\<close>

definition fresh_row :: "string \<Rightarrow> row" where
  "fresh_row name =
     \<lparr>original = name, new_name = [], datetime = [], landscape = Fumei,
      x_col = None, y_col = None, matching = [], distance_col = None\<rparr>"

definition gps_at :: "real \<Rightarrow> real \<Rightarrow> gps_data" where
  "gps_at x y =
     \<lparr>exif_datetime = None, lat = None, lon = None, x_coord = Some x, y_coord = Some y,
      original_x_coord = Some x, original_y_coord = Some y\<rparr>"

definition two_photos :: app_state where
  "two_photos =
     \<lparr>photos_tree = [fresh_row ''P1.jpg'', fresh_row ''P2.jpg''],
      photo_gps_data =
        Mapping.update ''P1.jpg'' (gps_at 101 202)
          (Mapping.update ''P2.jpg'' (gps_at 99 199) Mapping.empty)\<rparr>"

definition bm1 :: sim_point where
  "bm1 = sample_point ''BM1'' 100 200"

text \<open>Two photos with different extensions, and a table with a match already in place.\<close>

definition mixed_photos :: app_state where
  "mixed_photos =
     \<lparr>photos_tree = [fresh_row ''a.jpg'', fresh_row ''b.png''],
      photo_gps_data =
        Mapping.update ''a.jpg'' (gps_at 101 202)
          (Mapping.update ''b.png'' (gps_at 99 199) Mapping.empty)\<rparr>"

definition p1_matched :: app_state where
  "p1_matched = confirm_landscape sample_config ''P1.jpg'' bm1 2 Kinkei two_photos"

definition p1_distant :: app_state where
  "p1_distant = confirm_landscape sample_config ''P1.jpg'' bm1 2 Enkei two_photos"









definition empty_parse :: parse_state where
  "empty_parse = \<lparr>sim_points = [], landparcel_data = []\<rparr>"

section \<open>Properties of the parser\<close>

lemmas parse_eval =
  load_sim_points_def load_step_def py_index_def strip_def is_space_def startswith_def
  a01_record_def a02_record_def int_of_str_def float_of_str_def split_sign_def is_digit_def
  digits_val_def digit_val_def parse_d00_landparcel_def empty_parse_def

text \<open>
  A point record with an empty x field: the iteration leaves through \<open>continue\<close> with
  the index unchanged, whatever the numeral readers are.
\<close>

lemma load_step_empty_coordinate:
  "load_step to_float to_int [''A01,1,P1,,200.0''] 0 st = Inr (0, st)"
  by (simp add: load_step_def py_index_def strip_def is_space_def startswith_def a01_record_def)

lemma load_loop_empty_coordinate:
  assumes "load_loop to_float to_int lines i st = Some r"
  shows "\<not> (lines = [''A01,1,P1,,200.0''] \<and> i = 0)"
proof (rule load_loop.raw_induct
    [where P = "\<lambda>to_float to_int lines i st r. \<not> (lines = [''A01,1,P1,,200.0''] \<and> i = 0)",
      OF _ assms])
  fix loop :: "(string \<Rightarrow> real option) \<Rightarrow> (string \<Rightarrow> int option) \<Rightarrow> string list \<Rightarrow> int
     \<Rightarrow> parse_state \<Rightarrow> (py_error + parse_state) option"
  fix tf ti ls and j :: int and s y
  assume IH: "\<And>tf ti ls j s y. loop tf ti ls j s = Some y
                \<Longrightarrow> \<not> (ls = [''A01,1,P1,,200.0''] \<and> j = 0)"
  assume body: "(if j < int (length ls)
      then case load_step tf ti ls j s of Inl e \<Rightarrow> Some (Inl e)
           | Inr (i', st') \<Rightarrow> loop tf ti ls i' st'
      else Some (Inr s)) = Some y"
  show "\<not> (ls = [''A01,1,P1,,200.0''] \<and> j = 0)"
  proof
    assume h: "ls = [''A01,1,P1,,200.0''] \<and> j = 0"
    with body have "loop tf ti ls j s = Some y"
      by (simp add: load_step_empty_coordinate)
    from IH[OF this] h show False by simp
  qed
qed

text \<open>
  C4: the parser is claimed to terminate on every finite input and to skip a point
  record whose x or y field is empty. On the one-line file \<open>A01,1,P1,,200.0\<close> the loop
  of \<open>load_sim_points\<close> never returns: the \<open>continue\<close> taken for an empty coordinate
  skips the increment of the line index, so the same line is read again for ever.
\<close>

theorem load_sim_points_empty_coordinate_diverges:
  "load_sim_points to_float to_int [''A01,1,P1,,200.0''] = None"
proof (cases "load_sim_points to_float to_int [''A01,1,P1,,200.0'']")
  case None
  then show ?thesis .
next
  case (Some r)
  then show ?thesis
    using load_loop_empty_coordinate[of to_float to_int "[''A01,1,P1,,200.0'']" 0 _ r]
    by (simp add: load_sim_points_def)
qed

text \<open>
  A second way not to return: a legacy parcel record that declares the count \<open>-1\<close>
  moves the index back by one before the loop's own increment.
\<close>

lemma load_step_negative_count:
  "load_step to_float int_of_str [''A02,0,P,-1''] 0 st = Inr (0, st)"
  by (simp add: load_step_def py_index_def strip_def is_space_def startswith_def a02_record_def
      int_of_str_def split_sign_def is_digit_def digits_val_def digit_val_def)

lemma load_loop_negative_count:
  assumes "load_loop to_float to_int lines i st = Some r"
  shows "\<not> (to_int = int_of_str \<and> lines = [''A02,0,P,-1''] \<and> i = 0)"
proof (rule load_loop.raw_induct
    [where P = "\<lambda>to_float to_int lines i st r.
                  \<not> (to_int = int_of_str \<and> lines = [''A02,0,P,-1''] \<and> i = 0)",
      OF _ assms])
  fix loop :: "(string \<Rightarrow> real option) \<Rightarrow> (string \<Rightarrow> int option) \<Rightarrow> string list \<Rightarrow> int
     \<Rightarrow> parse_state \<Rightarrow> (py_error + parse_state) option"
  fix tf ti ls and j :: int and s y
  assume IH: "\<And>tf ti ls j s y. loop tf ti ls j s = Some y
                \<Longrightarrow> \<not> (ti = int_of_str \<and> ls = [''A02,0,P,-1''] \<and> j = 0)"
  assume body: "(if j < int (length ls)
      then case load_step tf ti ls j s of Inl e \<Rightarrow> Some (Inl e)
           | Inr (i', st') \<Rightarrow> loop tf ti ls i' st'
      else Some (Inr s)) = Some y"
  show "\<not> (ti = int_of_str \<and> ls = [''A02,0,P,-1''] \<and> j = 0)"
  proof
    assume h: "ti = int_of_str \<and> ls = [''A02,0,P,-1''] \<and> j = 0"
    with body have "loop tf ti ls j s = Some y"
      by (simp add: load_step_negative_count)
    from IH[OF this] h show False by simp
  qed
qed

lemma load_sim_points_negative_count_diverges:
  "load_sim_points to_float int_of_str [''A02,0,P,-1''] = None"
proof (cases "load_sim_points to_float int_of_str [''A02,0,P,-1'']")
  case None
  then show ?thesis .
next
  case (Some r)
  then show ?thesis
    using load_loop_negative_count[of to_float int_of_str "[''A02,0,P,-1'']" 0 _ r]
    by (simp add: load_sim_points_def)
qed

text \<open>
  A point record whose x or y numeral is not empty but is rejected by \<open>float\<close> is
  skipped and the loop goes on with the next line.
\<close>

lemma load_sim_points_unparsable_coordinate_skipped:
  "load_sim_points float_of_str int_of_str [''A01,1,P1,abc,200.0'', ''A01,2,P2,10.5,20.0''] =
     Some (Inr \<lparr>sim_points = [\<lparr>tenban = ''2'', tenmei = ''P2'', x_zahyo = 21 / 2,
                                y_zahyo = 20, z_zahyo = 0\<rparr>],
               landparcel_data = []\<rparr>)"
  by (simp add: parse_eval load_loop.simps)

text \<open>Stripping twice is stripping once; the names the parser stores are stripped.\<close>

lemma strip_idem: "strip (strip s) = strip s"
proof -
  let ?t = "dropWhile is_space s"
  let ?u = "dropWhile is_space (rev ?t)"
  have s: "strip s = rev ?u" by (simp add: strip_def)
  have u: "dropWhile is_space ?u = ?u" by simp
  have "dropWhile is_space (rev ?u) = rev ?u"
  proof (cases "?u = []")
    case True
    show ?thesis by (simp only: True rev.simps dropWhile.simps)
  next
    case False
    have "rev ?t = takeWhile is_space (rev ?t) @ ?u" by simp
    then have "?t = rev ?u @ rev (takeWhile is_space (rev ?t))"
      by (metis rev_append rev_rev_ident)
    with False have "hd (rev ?u) = hd ?t" by (metis hd_append2 rev_is_Nil_conv)
    moreover have "?t \<noteq> []"
    proof
      assume e: "?t = []"
      have "?u = []" by (simp only: e rev.simps dropWhile.simps)
      with False show False by contradiction
    qed
    then have "\<not> is_space (hd ?t)" by (rule hd_dropWhile)
    ultimately show ?thesis using False by (simp add: dropWhile_eq_self_iff)
  qed
  then show ?thesis unfolding s by (simp add: strip_def u)
qed

lemma a01_record_stripped_name:
  "a01_record to_float parts = A01_Point p \<Longrightarrow> strip (tenmei p) = tenmei p \<and> strip (tenban p) = tenban p"
  by (auto simp: a01_record_def Let_def strip_idem split: if_splits option.splits)

section \<open>Properties of the coordinate-frame classification\<close>

lemma py_min_Min: "xs \<noteq> [] \<Longrightarrow> py_min xs = Some (Min (set xs))"
proof -
  have f: "(\<lambda>m v. if v < m then v else m) = (\<lambda>(m::real) v. min v m)"
    by (auto simp: fun_eq_iff min_def)
  show "xs \<noteq> [] \<Longrightarrow> py_min xs = Some (Min (set xs))"
    using Min.set_eq_fold[of "hd xs" "tl xs"]
    by (cases xs) (simp_all add: py_min_def f foldl_conv_fold del: set_simps)
qed

lemma py_max_Max: "xs \<noteq> [] \<Longrightarrow> py_max xs = Some (Max (set xs))"
proof -
  have f: "(\<lambda>m v. if v > m then v else m) = (\<lambda>(m::real) v. max v m)"
    by (auto simp: fun_eq_iff max_def)
  show "xs \<noteq> [] \<Longrightarrow> py_max xs = Some (Max (set xs))"
    using Max.set_eq_fold[of "hd xs" "tl xs"]
    by (cases xs) (simp_all add: py_max_def f foldl_conv_fold del: set_simps)
qed

text \<open>
  C5, as amended: on a non-empty point set \<open>detect_coordinate_system_type\<close> computes
  the reference classification over the extrema (\<open>True\<close> read as LOCAL, \<open>False\<close> as
  NATIONAL_PLANE, never an error); on the empty point set it returns \<open>False\<close>, the
  result of the NATIONAL_PLANE branch, and not a third value.
\<close>

theorem detect_coordinate_system_type_refines_spec:
  "detect_coordinate_system_type points =
     Inr (if points = [] then False else spec_classification points = LOCAL) \<and>
   (points \<noteq> [] \<longrightarrow>
      (\<exists>b. detect_coordinate_system_type points = Inr b \<and>
           frame_of_result b = spec_classification points))"
proof (cases "points = []")
  case True
  then show ?thesis by (simp add: detect_coordinate_system_type_def)
next
  case False
  then have ne: "map x_zahyo points \<noteq> []" "map y_zahyo points \<noteq> []" by simp_all
  show ?thesis
    using False
    by (auto simp add: detect_coordinate_system_type_def spec_classification_def
        frame_of_result_def py_min_Min[OF ne(1)] py_max_Max[OF ne(1)] py_min_Min[OF ne(2)]
        py_max_Max[OF ne(2)] Let_def
        simp del: set_map)
qed

text \<open>
  The boundary of C5 at concrete inputs: all extrema at 4999 give LOCAL, all extrema
  at 5000 give NATIONAL_PLANE.
\<close>

theorem detect_coordinate_system_type_boundary:
  "detect_coordinate_system_type [sample_point ''P'' 4999 4999] = Inr True \<and>
   spec_classification [sample_point ''P'' 4999 4999] = LOCAL \<and>
   detect_coordinate_system_type [sample_point ''P'' 5000 5000] = Inr False \<and>
   spec_classification [sample_point ''P'' 5000 5000] = NATIONAL_PLANE"
  using detect_coordinate_system_type_refines_spec[of "[sample_point ''P'' 4999 4999]"]
        detect_coordinate_system_type_refines_spec[of "[sample_point ''P'' 5000 5000]"]
  by (simp add: sample_point_def spec_classification_def frame_of_result_def)

text \<open>
  C5 as stated fails on the empty point set: the reference result is NEEDS_MANUAL, the
  code returns \<open>False\<close>, which its caller reads as NATIONAL_PLANE; type and zone results
  are the same as for a plane-rectangular point set outside every zone box.
\<close>

theorem detect_coordinate_system_type_empty_counterexample:
  "spec_classification [] = NEEDS_MANUAL \<and>
   detect_coordinate_system_type [] = Inr False \<and>
   frame_of_result False = NATIONAL_PLANE \<and>
   spec_classification [sample_point ''P'' 250000 250000] = NATIONAL_PLANE \<and>
   detect_coordinate_system_type [sample_point ''P'' 250000 250000] =
     detect_coordinate_system_type [] \<and>
   detect_coordinate_system_number [sample_point ''P'' 250000 250000] =
     detect_coordinate_system_number []"
  by (simp add: spec_classification_def detect_coordinate_system_type_def frame_of_result_def
      detect_coordinate_system_number_def system_ranges_def py_min_def py_max_def
      sample_point_def)

section \<open>Properties of the naming engine\<close>

lemma restore_entry_idem: "restore_entry (restore_entry g) = restore_entry g"
  by (simp add: restore_entry_def split: option.splits)

lemma restore_coords_apply:
  "Mapping.lookup (restore_coords gps a) k =
     (if k = a then map_option restore_entry (Mapping.lookup gps a) else Mapping.lookup gps k)"
  by (simp add: restore_coords_def Mapping.lookup_update' split: option.splits)

lemma foldl_restore_coords:
  "Mapping.lookup (foldl restore_coords gps ks) k =
     (if k \<in> set ks then map_option restore_entry (Mapping.lookup gps k) else Mapping.lookup gps k)"
proof (induction ks arbitrary: gps)
  case Nil
  then show ?case by simp
next
  case (Cons a ks)
  have "Mapping.lookup (foldl restore_coords gps (a # ks)) k =
        Mapping.lookup (foldl restore_coords (restore_coords gps a) ks) k"
    by simp
  also have "\<dots> = (if k \<in> set ks
                    then map_option restore_entry (Mapping.lookup (restore_coords gps a) k)
                    else Mapping.lookup (restore_coords gps a) k)"
    by (rule Cons.IH)
  also have "\<dots> = (if k \<in> set (a # ks) then map_option restore_entry (Mapping.lookup gps k)
                    else Mapping.lookup gps k)"
    by (cases "Mapping.lookup gps a") (auto simp: restore_coords_apply restore_entry_idem)
  finally show ?case .
qed

lemma snap_photo_apply:
  "Mapping.lookup (snap_photo p mp gps) k =
     (if k = p then map_option (\<lambda>g. snap_to_point g mp) (Mapping.lookup gps p)
      else Mapping.lookup gps k)"
  by (simp add: snap_photo_def Mapping.lookup_update' split: option.splits)

lemma restore_entry_fields:
  "original_x_coord g = Some ox \<Longrightarrow> original_y_coord g = Some oy \<Longrightarrow>
   restore_entry g = g\<lparr>x_coord := Some ox, y_coord := Some oy\<rparr>"
  by (simp add: restore_entry_def)

lemma collides_not_same:
  "collides cfg i photo l r \<Longrightarrow> original r \<noteq> photo"
  by (auto simp: collides_def is_existing_def split: if_splits)

lemma original_clear_row [simp]: "original (clear_row r) = original r"
  by (simp add: clear_row_def)

lemma collides_after_clear:
  "collides cfg i p l (clear_row r) \<Longrightarrow> clear_row (clear_row r) = clear_row r"
  by (simp add: clear_row_def)

lemma hit_idem:
  "(if collides cfg i p l (if collides cfg i p l r then clear_row r else r)
    then clear_row (if collides cfg i p l r then clear_row r else r)
    else (if collides cfg i p l r then clear_row r else r))
   = (if collides cfg i p l r then clear_row r else r)"
  by (simp add: clear_row_def)

lemma hit_keys_subset:
  "k \<in> original ` {x \<in> (\<lambda>r. if collides cfg i p l r then clear_row r else r) ` set rows. collides cfg i p l x}
   \<Longrightarrow> k \<in> original ` {x \<in> set rows. collides cfg i p l x}"
  by (auto split: if_splits)

lemma create_filename_twice:
  "create_filename cfg i p l pd (snd (create_filename cfg i p l pd st)) =
   create_filename cfg i p l pd st"
proof -
  let ?id = "effective_identifier cfg i pd"
  let ?f = "\<lambda>r. if collides cfg ?id p l r then clear_row r else r"
  have rows: "map ?f (map ?f (photos_tree st)) = map ?f (photos_tree st)"
    by (simp add: hit_idem o_def)
  have gps: "foldl restore_coords
               (foldl restore_coords (photo_gps_data st)
                  (map original (filter (collides cfg ?id p l) (photos_tree st))))
               (map original (filter (collides cfg ?id p l) (map ?f (photos_tree st))))
             = foldl restore_coords (photo_gps_data st)
                  (map original (filter (collides cfg ?id p l) (photos_tree st)))"
  proof (rule mapping_eqI)
    fix k
    show "Mapping.lookup (foldl restore_coords
               (foldl restore_coords (photo_gps_data st)
                  (map original (filter (collides cfg ?id p l) (photos_tree st))))
               (map original (filter (collides cfg ?id p l) (map ?f (photos_tree st))))) k
             = Mapping.lookup (foldl restore_coords (photo_gps_data st)
                  (map original (filter (collides cfg ?id p l) (photos_tree st)))) k"
      using hit_keys_subset[of k cfg ?id p l "photos_tree st"]
      by (cases "Mapping.lookup (photo_gps_data st) k")
         (auto simp: foldl_restore_coords restore_entry_idem)
  qed
  show ?thesis
    by (simp add: create_filename_def Let_def rows gps del: map_map)
qed


lemma original_dialog_row [simp]: "original (dialog_row n l i d r) = original r"
  by (simp add: dialog_row_def)

lemma dialog_row_idem [simp]: "dialog_row n l i d (dialog_row n l i d r) = dialog_row n l i d r"
  by (simp add: dialog_row_def)

lemma update_row_idem:
  "(\<And>r. original (f r) = original r) \<Longrightarrow> (\<And>r. f (f r) = f r) \<Longrightarrow>
   update_row p f (update_row p f rows) = update_row p f rows"
  by (induction rows) auto

lemma map_update_row_commute:
  assumes "\<And>r. original (g r) = original r"
    and "\<And>r. original r = p \<Longrightarrow> g r = r"
    and "\<And>r. original r = p \<Longrightarrow> g (f r) = f r"
  shows "map g (update_row p f rows) = update_row p f (map g rows)"
  using assms by (induction rows) auto

lemma set_update_row_subset:
  "set (update_row p f rows) \<subseteq> set rows \<union> f ` {r \<in> set rows. original r = p}"
  by (induction rows) auto

lemma confirm_landscape_twice:
  "confirm_landscape cfg p mp d l (confirm_landscape cfg p mp d l st) =
   confirm_landscape cfg p mp d l st"
proof -
  let ?i = "dialog_identifier cfg mp"
  let ?id = "effective_identifier cfg ?i (Some mp)"
  let ?hit = "collides cfg ?id p l"
  let ?f = "\<lambda>r. if ?hit r then clear_row r else r"
  let ?n = "base_filename cfg ?id p l"
  let ?u = "dialog_row ?n l ?i d"
  let ?rows1 = "update_row p ?u (map ?f (photos_tree st))"
  let ?K1 = "map original (filter ?hit (photos_tree st))"
  let ?gps1 = "snap_photo p mp (foldl restore_coords (photo_gps_data st) ?K1)"
  have nothit: "\<And>r. original r = p \<Longrightarrow> \<not> ?hit r"
    using collides_not_same by blast
  have comm: "map ?f ?rows1 = update_row p ?u (map ?f (map ?f (photos_tree st)))"
    by (rule map_update_row_commute) (auto simp: nothit)
  have rows: "update_row p ?u (map ?f ?rows1) = ?rows1"
    by (simp only: comm) (simp add: hit_idem o_def update_row_idem)
  have keys: "\<And>k. k \<in> set (map original (filter ?hit ?rows1)) \<Longrightarrow> k \<in> set ?K1 \<and> k \<noteq> p"
  proof -
    fix k assume "k \<in> set (map original (filter ?hit ?rows1))"
    then obtain r where r: "r \<in> set ?rows1" "?hit r" "k = original r" by auto
    from r(2) have np: "original r \<noteq> p" by (rule collides_not_same)
    from r(1) set_update_row_subset[of p ?u "map ?f (photos_tree st)"]
    have "r \<in> set (map ?f (photos_tree st)) \<or> original r = p" by auto
    with np have "r \<in> set (map ?f (photos_tree st))" by simp
    then obtain r0 where r0: "r0 \<in> set (photos_tree st)" "r = ?f r0" by auto
    with r(2) have "?hit r0" by (auto split: if_splits)
    with r0 r(3) np show "k \<in> set ?K1 \<and> k \<noteq> p" by (auto split: if_splits)
  qed
  have gps: "snap_photo p mp (foldl restore_coords ?gps1 (map original (filter ?hit ?rows1))) = ?gps1"
  proof (rule mapping_eqI)
    fix k
    show "Mapping.lookup (snap_photo p mp (foldl restore_coords ?gps1
            (map original (filter ?hit ?rows1)))) k = Mapping.lookup ?gps1 k"
      using keys[of k]
      by (cases "Mapping.lookup (photo_gps_data st) k")
         (auto simp: snap_photo_apply foldl_restore_coords restore_entry_idem snap_to_point_def
               option.map_comp o_def simp del: set_map)
  qed
  show ?thesis
    by (simp add: confirm_landscape_def create_filename_def Let_def rows gps del: map_map)
qed



























lemmas naming_eval =
  run_operations_def confirm_landscape_def create_filename_def dialog_identifier_def
  effective_identifier_def is_special_name_def kijunten_def inshoten_def startswith_def
  strip_def is_space_def base_filename_def effective_landscape_def suffix_of_def
  splitext_ext_def collides_def is_existing_def clear_row_def dialog_row_def snap_photo_def
  snap_to_point_def restore_coords_def restore_entry_def sample_config_def fresh_row_def
  gps_at_def two_photos_def mixed_photos_def bm1_def sample_point_def p1_matched_def
  p1_distant_def override_free_def auto_identifier_def auto_match_by_gps_def
  auto_match_row_def nearest_point_def nearer_def auto_row_def Mapping.lookup_update'

text \<open>
  When the override leaves the caller's identifier alone: always in the dialog for a
  stripped point name; in the automatic pass unless the point is a special one whose
  name differs from the configured identifier.
\<close>

lemma override_free_dialog:
  "strip (tenmei mp) = tenmei mp \<Longrightarrow> override_free cfg (dialog_identifier cfg mp) mp"
  by (simp add: override_free_def effective_identifier_def dialog_identifier_def Let_def)

lemma override_free_auto:
  "\<not> is_special_name (strip (tenmei mp)) \<or> \<not> force_point_name_for_special cfg \<or>
   (use_point_name cfg \<and> strip (tenmei mp) = tenmei mp)
   \<Longrightarrow> override_free cfg (auto_identifier cfg mp) mp"
  by (auto simp: override_free_def effective_identifier_def auto_identifier_def Let_def)

text \<open>The scan of the automatic pass settles on the first nearest point.\<close>

lemma nearest_point_first_minimum:
  "points \<noteq> [] \<Longrightarrow>
   \<exists>pre p post. points = pre @ p # post \<and>
      nearest_point px py points = Some (p, point_distance px py p) \<and>
      (\<forall>q \<in> set pre. point_distance px py p < point_distance px py q) \<and>
      (\<forall>q \<in> set post. point_distance px py p \<le> point_distance px py q)"
proof (induction points rule: rev_induct)
  case Nil
  then show ?case by simp
next
  case (snoc x xs)
  show ?case
  proof (cases "xs = []")
    case True
    then have "nearest_point px py (xs @ [x]) = Some (x, point_distance px py x)"
      by (simp add: nearest_point_def nearer_def point_distance_def)
    then show ?thesis using True by fastforce
  next
    case False
    from snoc.IH[OF False] obtain pre p post where
      xs: "xs = pre @ p # post"
      and c: "nearest_point px py xs = Some (p, point_distance px py p)"
      and lt: "\<forall>q \<in> set pre. point_distance px py p < point_distance px py q"
      and le: "\<forall>q \<in> set post. point_distance px py p \<le> point_distance px py q"
      by blast
    have step: "nearest_point px py (xs @ [x]) =
        (if point_distance px py x < point_distance px py p then Some (x, point_distance px py x)
         else Some (p, point_distance px py p))"
      using c by (simp add: nearest_point_def nearer_def point_distance_def)
    show ?thesis
    proof (cases "point_distance px py x < point_distance px py p")
      case True
      have "xs @ [x] = xs @ x # []" by simp
      moreover have "\<forall>q \<in> set xs. point_distance px py x < point_distance px py q"
        using True lt le xs by fastforce
      moreover have "nearest_point px py (xs @ [x]) = Some (x, point_distance px py x)"
        using step True by simp
      ultimately show ?thesis by (metis empty_iff list.set(1))
    next
      case False
      have "xs @ [x] = pre @ p # (post @ [x])" using xs by simp
      moreover have "\<forall>q \<in> set (post @ [x]). point_distance px py p \<le> point_distance px py q"
        using False le by auto
      moreover have "nearest_point px py (xs @ [x]) = Some (p, point_distance px py p)"
        using step False by simp
      ultimately show ?thesis using lt by blast
    qed
  qed
qed

subsection \<open>Demotion\<close>

text \<open>
  C1: a displaced incumbent is claimed to be renamed to the numeric-suffix name
  \<open>identifier_n.ext\<close> with the smallest unused \<open>n \<ge> 3\<close>. In the scenario of the
  specification (\<open>P1.jpg\<close> holds \<open>BM1-2.jpg\<close>, then \<open>P2.jpg\<close> is assigned to \<open>BM1\<close>,
  close) \<open>create_filename\<close> returns \<open>BM1-2.jpg\<close> for the new photo, but the row of
  \<open>P1.jpg\<close> is left with an empty new file name and an empty matched point: it is
  not renamed to \<open>BM1_3.jpg\<close>.
\<close>

theorem create_filename_blanks_displaced_photo:
  "new_name (photos_tree p1_matched ! 0) = ''BM1-2.jpg'' \<and>
   fst (create_filename sample_config ''BM1'' ''P2.jpg'' Kinkei (Some bm1) p1_matched) = ''BM1-2.jpg'' \<and>
   photos_tree (snd (create_filename sample_config ''BM1'' ''P2.jpg'' Kinkei (Some bm1) p1_matched)) ! 0 =
     \<lparr>original = ''P1.jpg'', new_name = [], datetime = [], landscape = Kinkei,
      x_col = None, y_col = None, matching = [], distance_col = None\<rparr> \<and>
   new_name (photos_tree (snd (create_filename sample_config ''BM1'' ''P2.jpg'' Kinkei (Some bm1)
      p1_matched)) ! 0) \<noteq> ''BM1_3.jpg''"
  by (simp add: naming_eval Let_def)

text \<open>
  C3: a photo displaced by \<open>create_filename\<close> whose original projected coordinates
  were recorded has, afterwards, its stored position equal to the original one; the
  rest of its entry is unchanged.
\<close>

theorem create_filename_restores_original_position:
  assumes "r \<in> set (photos_tree st)"
    and "collides cfg (effective_identifier cfg identifier point_data) original_filename
           landscape_type r"
    and "Mapping.lookup (photo_gps_data st) (original r) = Some g"
    and "original_x_coord g = Some ox" and "original_y_coord g = Some oy"
  shows "Mapping.lookup
           (photo_gps_data
              (snd (create_filename cfg identifier original_filename landscape_type point_data st)))
           (original r)
         = Some (g\<lparr>x_coord := Some ox, y_coord := Some oy\<rparr>)"
  using assms
  by (auto simp: create_filename_def Let_def foldl_restore_coords restore_entry_fields)

theorem create_filename_restores_original_position_witness:
  "photos_tree p1_matched ! 0 \<in> set (photos_tree p1_matched) \<and>
   collides sample_config (effective_identifier sample_config ''BM1'' (Some bm1)) ''P2.jpg'' Kinkei
     (photos_tree p1_matched ! 0) \<and>
   Mapping.lookup (photo_gps_data p1_matched) ''P1.jpg'' =
     Some ((gps_at 101 202)\<lparr>x_coord := Some 100, y_coord := Some 200\<rparr>) \<and>
   Mapping.lookup
     (photo_gps_data (snd (create_filename sample_config ''BM1'' ''P2.jpg'' Kinkei (Some bm1) p1_matched)))
     ''P1.jpg'' = Some (gps_at 101 202)"
  using create_filename_restores_original_position
          [of "photos_tree p1_matched ! 0" p1_matched sample_config "''BM1''" "Some bm1" "''P2.jpg''"
              Kinkei "(gps_at 101 202)\<lparr>x_coord := Some 100, y_coord := Some 200\<rparr>" 101 202]
  by (simp add: naming_eval Let_def)

text \<open>
  The same through the whole interactive assignment: the position written for the
  newly assigned photo does not touch the displaced one.
\<close>

lemma confirm_landscape_restores_original_position:
  assumes "r \<in> set (photos_tree st)"
    and "collides cfg (effective_identifier cfg (dialog_identifier cfg mp) (Some mp)) photo l r"
    and "Mapping.lookup (photo_gps_data st) (original r) = Some g"
    and "original_x_coord g = Some ox" and "original_y_coord g = Some oy"
  shows "Mapping.lookup (photo_gps_data (confirm_landscape cfg photo mp d l st)) (original r)
           = Some (g\<lparr>x_coord := Some ox, y_coord := Some oy\<rparr>)"
  using assms collides_not_same[OF assms(2)]
  by (auto simp: confirm_landscape_def create_filename_def Let_def foldl_restore_coords
      restore_entry_fields snap_photo_apply)

subsection \<open>Idempotence\<close>

text \<open>
  C8: a second call of \<open>create_filename\<close> with the arguments of the call just made
  returns the same file name and changes nothing: no further photo is displaced. This
  holds directly after the first call and also after the caller has written the row of
  the assigned photo, so the whole interactive assignment is idempotent.
\<close>

theorem create_filename_idempotent:
  "create_filename cfg identifier original_filename landscape_type point_data
     (snd (create_filename cfg identifier original_filename landscape_type point_data st)) =
   create_filename cfg identifier original_filename landscape_type point_data st \<and>
   confirm_landscape cfg photo_name matched_point distance photo_landscape
     (confirm_landscape cfg photo_name matched_point distance photo_landscape st) =
   confirm_landscape cfg photo_name matched_point distance photo_landscape st"
  by (simp add: create_filename_twice confirm_landscape_twice)

theorem create_filename_idempotent_witness:
  "create_filename sample_config ''BM1'' ''P2.jpg'' Kinkei (Some bm1)
     (snd (create_filename sample_config ''BM1'' ''P2.jpg'' Kinkei (Some bm1) p1_matched)) =
   create_filename sample_config ''BM1'' ''P2.jpg'' Kinkei (Some bm1) p1_matched \<and>
   fst (create_filename sample_config ''BM1'' ''P2.jpg'' Kinkei (Some bm1) p1_matched) = ''BM1-2.jpg'' \<and>
   map new_name (photos_tree (snd (create_filename sample_config ''BM1'' ''P2.jpg'' Kinkei (Some bm1)
     p1_matched))) = [[], []]"
  using create_filename_idempotent
          [of sample_config "''BM1''" "''P2.jpg''" Kinkei "Some bm1" p1_matched "''P2.jpg''" bm1 1 Kinkei]
  by (simp add: naming_eval Let_def)

subsection \<open>Collision invariant\<close>




subsection \<open>Frame of the automatic pass\<close>




section \<open>Properties of the encoding candidates\<close>





text \<open>
  The parser of the current program has no candidate list: it reads the file once with
  undecodable bytes dropped and returns normally also when no point record was found.
\<close>

lemma load_sim_points_accepts_zero_points: "load_sim_points to_float to_int [''Z00,no points here''] =
   Some (Inr \<lparr>sim_points = [], landparcel_data = []\<rparr>)"
  by (simp add: load_sim_points_def load_loop.simps load_step_def py_index_def strip_def
      is_space_def startswith_def)

section \<open>Properties of the matching in the earlier program\<close>






section \<open>Properties of the legacy parcel records\<close>





end
